theory Spec2Isabelle
  imports Complex_Main "HOL-Library.Sublist"
begin

section \<open>Order service: data model\<close>

text \<open>
  A shallow embedding of \<^verbatim>\<open>services/order_service/models.py\<close> and of the handler
  \<^verbatim>\<open>create_order\<close> of \<^verbatim>\<open>services/order_service/main.py\<close>.

  Python's \<^verbatim>\<open>int\<close> is \<^typ>\<open>int\<close>. A Python \<^verbatim>\<open>float\<close> is abstracted to
  \<^typ>\<open>real\<close>: the code only compares a price with zero and prints it, and the printing
  (\<^verbatim>\<open>str\<close> of a float) is a parameter of the model. A Python \<^verbatim>\<open>str\<close> is a
  \<^typ>\<open>string\<close> holding its UTF-8 bytes. A \<^verbatim>\<open>datetime\<close> is a point on an integer
  time line.
\<close>

datatype OrderStatus = CONFIRMED | FAILED

type_synonym datetime = int

text \<open>
  \<^verbatim>\<open>class Order(SQLModel, table=True)\<close>. The field \<^verbatim>\<open>id\<close> is \<open>order_id\<close> here
  (\<open>id\<close> is the identity function of HOL); it is \<open>None\<close> until the row is inserted.
\<close>

record Order =
  order_id :: "int option"
  user_id :: int
  price :: real
  status :: OrderStatus
  message :: string
  created_at :: datetime
  idempotency_key :: "string option"

text \<open>\<^verbatim>\<open>class OrderCreate(BaseModel)\<close>: the validated request body.\<close>

record OrderCreate =
  payload_user_id :: int
  payload_price :: real

text \<open>
  \<^verbatim>\<open>class OrderRead(BaseModel)\<close>: the representation sent back. It has no
  \<^verbatim>\<open>idempotency_key\<close>, and its \<^verbatim>\<open>id\<close> is a plain \<^verbatim>\<open>int\<close>.
\<close>

record OrderRead =
  read_id :: int
  read_user_id :: int
  read_price :: real
  read_status :: OrderStatus
  read_message :: string
  read_created_at :: datetime

text \<open>Every way in which the handler, or a call it makes, can raise.\<close>

datatype error =
    HTTPException nat string
  | RequestValidationError
  | ValidationError
  | IntegrityError
  | StorageError
  | KeyError string
  | ClientError

text \<open>
  The values found in the JSON objects the gateway clients return. A JSON number is a
  \<open>PNum\<close>, whether Python reads it as an \<^verbatim>\<open>int\<close> or a \<^verbatim>\<open>float\<close>.
\<close>

datatype pyval = PNone | PBool bool | PNum real | PStr string

type_synonym pydict = "string \<rightharpoonup> pyval"

fun truthy :: "pyval \<Rightarrow> bool" where
  "truthy PNone = False"
| "truthy (PBool b) = b"
| "truthy (PNum x) = (x \<noteq> 0)"
| "truthy (PStr s) = (s \<noteq> [])"

text \<open>\<^verbatim>\<open>d.get(k, default)\<close>.\<close>

definition dict_get :: "pydict \<Rightarrow> string \<Rightarrow> pyval \<Rightarrow> pyval" where
  "dict_get d k dflt = (case d k of None \<Rightarrow> dflt | Some v \<Rightarrow> v)"

text \<open>
  What an f-string prints for a value: \<^verbatim>\<open>str(v)\<close>. The printing of numbers belongs
  to the Python runtime and is the parameter \<open>str_num\<close>.
\<close>

fun py_str :: "(real \<Rightarrow> string) \<Rightarrow> pyval \<Rightarrow> string" where
  "py_str str_num PNone = ''None''"
| "py_str str_num (PBool b) = (if b then ''True'' else ''False'')"
| "py_str str_num (PNum x) = str_num x"
| "py_str str_num (PStr s) = s"

section \<open>The world outside the handler\<close>

text \<open>
  The three gateway clients (\<^verbatim>\<open>clients.py\<close>) and the database session
  (\<^verbatim>\<open>db.py\<close>, SQLAlchemy, SQLite) are not part of the handler. One value of type
  \<open>env\<close> fixes what they do during one request:
  \<^item> \<open>get_user\<close>, \<open>withdraw\<close>, \<open>send_email\<close>: what each client call returns, or the
    exception it raises (\<open>Inl\<close>, and \<open>Some\<close> for \<open>send_email\<close>, whose result is not used);
  \<^item> \<open>utcnow\<close>: the clock read by the default of \<^verbatim>\<open>Order.created_at\<close>;
  \<^item> \<open>str_float\<close>: \<^verbatim>\<open>str\<close> of a number;
  \<^item> \<open>before_commit\<close>: what other sessions did to the table between this request's first
    lookup and its commit; \<open>before_reread\<close>: the same between a failed commit and the
    lookup that follows it;
  \<^item> \<open>commit_fault\<close>: an exception the commit raises for a reason that the table's
    content does not decide (another constraint, a storage failure).
  The gateway calls a request makes are recorded as a list of \<open>call\<close>s.
\<close>

datatype call =
    GetUser int
  | Withdraw int real
  | SendEmail int pyval string string

record env =
  get_user :: "int \<Rightarrow> error + pydict"
  withdraw :: "int \<Rightarrow> real \<Rightarrow> error + pydict"
  send_email :: "int \<Rightarrow> pyval \<Rightarrow> string \<Rightarrow> string \<Rightarrow> error option"
  utcnow :: datetime
  str_float :: "real \<Rightarrow> string"
  before_commit :: "Order list \<Rightarrow> Order list"
  commit_fault :: "error option"
  before_reread :: "Order list \<Rightarrow> Order list"

text \<open>A request that runs with nobody else writing to the table.\<close>

definition no_interference :: "env \<Rightarrow> bool" where
  "no_interference e \<longleftrightarrow>
     before_commit e = (\<lambda>rows. rows) \<and> before_reread e = (\<lambda>rows. rows)"

text \<open>A request served alone by a healthy database.\<close>

definition sequential :: "env \<Rightarrow> bool" where
  "sequential e \<longleftrightarrow> no_interference e \<and> commit_fault e = None"

section \<open>The order table\<close>

text \<open>
  The table is the list of its rows in insertion order.
  \<^verbatim>\<open>session.exec(select(Order).where(Order.idempotency_key == k)).first()\<close> is the
  first row whose key equals \<open>k\<close>. When \<open>k\<close> is \<^verbatim>\<open>None\<close>, SQLAlchemy renders the
  comparison as \<^verbatim>\<open>IS NULL\<close>, so the rows without a key match: equality on
  \<^typ>\<open>string option\<close> says exactly that.
\<close>

definition select_by_key :: "Order list \<Rightarrow> string option \<Rightarrow> Order option" where
  "select_by_key rows k = List.find (\<lambda>r. idempotency_key r = k) rows"

text \<open>The primary key given to a new row: one more than the largest in the table.\<close>

definition row_id :: "Order \<Rightarrow> int" where
  "row_id r = (case order_id r of None \<Rightarrow> 0 | Some i \<Rightarrow> i)"

definition next_id :: "Order list \<Rightarrow> int" where
  "next_id rows = foldr (\<lambda>r m. max (row_id r) m) rows 0 + 1"

text \<open>
  \<^verbatim>\<open>unique=True\<close> on \<^verbatim>\<open>idempotency_key\<close>: a row whose key is not NULL and is
  already in the table is refused.
\<close>

definition duplicate_key :: "Order list \<Rightarrow> Order \<Rightarrow> bool" where
  "duplicate_key rows order \<longleftrightarrow>
     idempotency_key order \<noteq> None \<and> select_by_key rows (idempotency_key order) \<noteq> None"

text \<open>
  \<^verbatim>\<open>session.add(order); session.commit(); session.refresh(order)\<close>: the new table and
  the row as stored, or the exception of the commit, which leaves the table as it was.
\<close>

definition commit ::
  "Order list \<Rightarrow> Order \<Rightarrow> error option \<Rightarrow> error + (Order list \<times> Order)" where
  "commit rows order fault =
     (case fault of
        Some err \<Rightarrow> Inl err
      | None \<Rightarrow>
          if duplicate_key rows order then Inl IntegrityError
          else (let stored = order\<lparr>order_id := Some (next_id rows)\<rparr>
                in Inr (rows @ [stored], stored)))"

text \<open>
  \<^verbatim>\<open>OrderRead(**order.model_dump())\<close>: the extra field is dropped, and an order without
  an id does not validate.
\<close>

definition to_OrderRead :: "Order \<Rightarrow> error + OrderRead" where
  "to_OrderRead order =
     (case order_id order of
        None \<Rightarrow> Inl ValidationError
      | Some i \<Rightarrow>
          Inr \<lparr>read_id = i, read_user_id = user_id order, read_price = price order,
               read_status = status order, read_message = message order,
               read_created_at = created_at order\<rparr>)"

section \<open>The handler\<close>

text \<open>
  The three Russian literals of the handler and the subject of the mail, as UTF-8 bytes:
  \<^verbatim>\<open>Pis'mo schast'ya: zakaz na summu \<close>, \<^verbatim>\<open> podtverzhden. Balans \<close>,
  \<^verbatim>\<open>Pis'mo gorya: ne udalos' spisat' \<close> and \<^verbatim>\<open>Rezul'tat oformleniya zakaza\<close>.
\<close>


definition happy_prefix :: string where
  "happy_prefix =
    [CHR 0xD0, CHR 0x9F, CHR 0xD0, CHR 0xB8, CHR 0xD1, CHR 0x81, CHR 0xD1, CHR 0x8C,
     CHR 0xD0, CHR 0xBC, CHR 0xD0, CHR 0xBE, CHR 0x20, CHR 0xD1, CHR 0x81, CHR 0xD1,
     CHR 0x87, CHR 0xD0, CHR 0xB0, CHR 0xD1, CHR 0x81, CHR 0xD1, CHR 0x82, CHR 0xD1,
     CHR 0x8C, CHR 0xD1, CHR 0x8F, CHR 0x3A, CHR 0x20, CHR 0xD0, CHR 0xB7, CHR 0xD0,
     CHR 0xB0, CHR 0xD0, CHR 0xBA, CHR 0xD0, CHR 0xB0, CHR 0xD0, CHR 0xB7, CHR 0x20,
     CHR 0xD0, CHR 0xBD, CHR 0xD0, CHR 0xB0, CHR 0x20, CHR 0xD1, CHR 0x81, CHR 0xD1,
     CHR 0x83, CHR 0xD0, CHR 0xBC, CHR 0xD0, CHR 0xBC, CHR 0xD1, CHR 0x83, CHR 0x20]"

definition happy_middle :: string where
  "happy_middle =
    [CHR 0x20, CHR 0xD0, CHR 0xBF, CHR 0xD0, CHR 0xBE, CHR 0xD0, CHR 0xB4, CHR 0xD1,
     CHR 0x82, CHR 0xD0, CHR 0xB2, CHR 0xD0, CHR 0xB5, CHR 0xD1, CHR 0x80, CHR 0xD0,
     CHR 0xB6, CHR 0xD0, CHR 0xB4, CHR 0xD0, CHR 0xB5, CHR 0xD0, CHR 0xBD, CHR 0x2E,
     CHR 0x20, CHR 0xD0, CHR 0x91, CHR 0xD0, CHR 0xB0, CHR 0xD0, CHR 0xBB, CHR 0xD0,
     CHR 0xB0, CHR 0xD0, CHR 0xBD, CHR 0xD1, CHR 0x81, CHR 0x20]"

definition sad_prefix :: string where
  "sad_prefix =
    [CHR 0xD0, CHR 0x9F, CHR 0xD0, CHR 0xB8, CHR 0xD1, CHR 0x81, CHR 0xD1, CHR 0x8C,
     CHR 0xD0, CHR 0xBC, CHR 0xD0, CHR 0xBE, CHR 0x20, CHR 0xD0, CHR 0xB3, CHR 0xD0,
     CHR 0xBE, CHR 0xD1, CHR 0x80, CHR 0xD1, CHR 0x8F, CHR 0x3A, CHR 0x20, CHR 0xD0,
     CHR 0xBD, CHR 0xD0, CHR 0xB5, CHR 0x20, CHR 0xD1, CHR 0x83, CHR 0xD0, CHR 0xB4,
     CHR 0xD0, CHR 0xB0, CHR 0xD0, CHR 0xBB, CHR 0xD0, CHR 0xBE, CHR 0xD1, CHR 0x81,
     CHR 0xD1, CHR 0x8C, CHR 0x20, CHR 0xD1, CHR 0x81, CHR 0xD0, CHR 0xBF, CHR 0xD0,
     CHR 0xB8, CHR 0xD1, CHR 0x81, CHR 0xD0, CHR 0xB0, CHR 0xD1, CHR 0x82, CHR 0xD1,
     CHR 0x8C, CHR 0x20]"

definition email_subject :: string where
  "email_subject =
    [CHR 0xD0, CHR 0xA0, CHR 0xD0, CHR 0xB5, CHR 0xD0, CHR 0xB7, CHR 0xD1, CHR 0x83,
     CHR 0xD0, CHR 0xBB, CHR 0xD1, CHR 0x8C, CHR 0xD1, CHR 0x82, CHR 0xD0, CHR 0xB0,
     CHR 0xD1, CHR 0x82, CHR 0x20, CHR 0xD0, CHR 0xBE, CHR 0xD1, CHR 0x84, CHR 0xD0,
     CHR 0xBE, CHR 0xD1, CHR 0x80, CHR 0xD0, CHR 0xBC, CHR 0xD0, CHR 0xBB, CHR 0xD0,
     CHR 0xB5, CHR 0xD0, CHR 0xBD, CHR 0xD0, CHR 0xB8, CHR 0xD1, CHR 0x8F, CHR 0x20,
     CHR 0xD0, CHR 0xB7, CHR 0xD0, CHR 0xB0, CHR 0xD0, CHR 0xBA, CHR 0xD0, CHR 0xB0,
     CHR 0xD0, CHR 0xB7, CHR 0xD0, CHR 0xB0]"


text \<open>\<^verbatim>\<open>if idempotency_key:\<close> holds for a key that is present and not empty.\<close>

definition key_given :: "string option \<Rightarrow> bool" where
  "key_given k \<longleftrightarrow> (case k of None \<Rightarrow> False | Some s \<Rightarrow> s \<noteq> [])"

text \<open>Lines 33 to 38: the first lookup.\<close>

definition fast_path :: "Order list \<Rightarrow> string option \<Rightarrow> Order option" where
  "fast_path rows k = (if key_given k then select_by_key rows k else None)"

text \<open>
  Lines 45 to 54: \<open>(withdrawal_success, message, payment)\<close> after the call of the ledger.
\<close>

definition withdrawal :: "env \<Rightarrow> OrderCreate \<Rightarrow> pyval \<times> pyval \<times> pydict" where
  "withdrawal e payload =
     (case withdraw e (payload_user_id payload) (payload_price payload) of
        Inr payment \<Rightarrow>
          (dict_get payment ''withdrawn'' (PBool False),
           dict_get payment ''message'' (PStr []),
           payment)
      | Inl _ \<Rightarrow> (PBool False, PStr ''Billing unavailable'', Map.empty))"

text \<open>Lines 56 to 61.\<close>

definition status_value :: "pyval \<Rightarrow> OrderStatus" where
  "status_value withdrawal_success =
     (if truthy withdrawal_success then CONFIRMED else FAILED)"

definition email_body ::
  "(real \<Rightarrow> string) \<Rightarrow> real \<Rightarrow> pyval \<times> pyval \<times> pydict \<Rightarrow> string" where
  "email_body str_num amount w =
     (case w of (withdrawal_success, msg, payment) \<Rightarrow>
        if truthy withdrawal_success
        then happy_prefix @ str_num amount @ happy_middle
               @ py_str str_num (dict_get payment ''balance'' (PStr ''n/a''))
        else sad_prefix @ str_num amount @ ''. '' @ py_str str_num msg)"

text \<open>Lines 63 to 69: the order handed to the session.\<close>

definition new_order :: "env \<Rightarrow> OrderCreate \<Rightarrow> string option \<Rightarrow> Order" where
  "new_order e payload k =
     (let w = withdrawal e payload in
      \<lparr>order_id = None,
       user_id = payload_user_id payload,
       price = payload_price payload,
       status = status_value (fst w),
       message = email_body (str_float e) (payload_price payload) w,
       created_at = utcnow e,
       idempotency_key = k\<rparr>)"

text \<open>Lines 74 to 81: the handler of \<^verbatim>\<open>IntegrityError\<close>, on the table it reads.\<close>

definition recover :: "Order list \<Rightarrow> string option \<Rightarrow> error + OrderRead" where
  "recover rows k =
     (case select_by_key rows k of
        Some existing_order \<Rightarrow> to_OrderRead existing_order
      | None \<Rightarrow> Inl IntegrityError)"

text \<open>Lines 85 to 92: the mail, then the response.\<close>

definition notify ::
  "env \<Rightarrow> OrderCreate \<Rightarrow> pydict \<Rightarrow> Order \<Rightarrow> (error + OrderRead) \<times> call list" where
  "notify e payload user stored =
     (case user ''email'' of
        None \<Rightarrow> (Inl (KeyError ''email''), [])
      | Some email \<Rightarrow>
          (case send_email e (payload_user_id payload) email email_subject (message stored) of
             Some err \<Rightarrow>
               (Inl err,
                [SendEmail (payload_user_id payload) email email_subject (message stored)])
           | None \<Rightarrow>
               (to_OrderRead stored,
                [SendEmail (payload_user_id payload) email email_subject (message stored)])))"

text \<open>
  \<^verbatim>\<open>create_order\<close>: the response or the exception, the table afterwards, and the
  gateway calls made, in order.
\<close>

definition create_order ::
  "env \<Rightarrow> Order list \<Rightarrow> OrderCreate \<Rightarrow> string option
     \<Rightarrow> (error + OrderRead) \<times> Order list \<times> call list" where
  "create_order e rows payload k =
     (case fast_path rows k of
        Some existing_order \<Rightarrow> (to_OrderRead existing_order, rows, [])
      | None \<Rightarrow>
          (case get_user e (payload_user_id payload) of
             Inl _ \<Rightarrow>
               (Inl (HTTPException 404 ''User not found''), rows,
                [GetUser (payload_user_id payload)])
           | Inr user \<Rightarrow>
               (let calls = [GetUser (payload_user_id payload),
                             Withdraw (payload_user_id payload) (payload_price payload)];
                    order = new_order e payload k;
                    rows1 = before_commit e rows
                in case commit rows1 order (commit_fault e) of
                     Inl err \<Rightarrow>
                       if err = IntegrityError
                       then (recover (before_reread e rows1) k, before_reread e rows1, calls)
                       else (Inl err, rows1, calls)
                   | Inr (rows2, stored) \<Rightarrow>
                       (case notify e payload user stored of
                          (res, sent) \<Rightarrow> (res, rows2, calls @ sent)))))"

text \<open>
  The endpoint \<^verbatim>\<open>POST /orders\<close>: the body is validated against \<^verbatim>\<open>OrderCreate\<close>
  (\<^verbatim>\<open>user_id: ge=1\<close>, \<^verbatim>\<open>price: gt=0\<close>) before the handler runs.
\<close>

definition validate_OrderCreate :: "int \<Rightarrow> real \<Rightarrow> error + OrderCreate" where
  "validate_OrderCreate uid amount =
     (if uid \<ge> 1 \<and> amount > 0
      then Inr \<lparr>payload_user_id = uid, payload_price = amount\<rparr>
      else Inl RequestValidationError)"

definition post_orders ::
  "env \<Rightarrow> Order list \<Rightarrow> int \<times> real \<Rightarrow> string option
     \<Rightarrow> (error + OrderRead) \<times> Order list \<times> call list" where
  "post_orders e rows body k =
     (case validate_OrderCreate (fst body) (snd body) of
        Inl err \<Rightarrow> (Inl err, rows, [])
      | Inr payload \<Rightarrow> create_order e rows payload k)"

text \<open>Requests served one after the other.\<close>

fun replay ::
  "Order list \<Rightarrow> env list \<Rightarrow> OrderCreate \<Rightarrow> string option
     \<Rightarrow> (error + OrderRead) list \<times> Order list" where
  "replay rows [] payload k = ([], rows)"
| "replay rows (e # es) payload k =
     (case create_order e rows payload k of
        (res, rows1, _) \<Rightarrow>
          (case replay rows1 es payload k of
             (ress, rows2) \<Rightarrow> (res # ress, rows2)))"

fun serve ::
  "Order list \<Rightarrow> (env \<times> (int \<times> real) \<times> string option) list \<Rightarrow> Order list" where
  "serve rows [] = rows"
| "serve rows ((e, body, k) # reqs) = serve (fst (snd (post_orders e rows body k))) reqs"


section \<open>Vocabulary of the properties\<close>

text \<open>The identity gateway answers for the user of the request.\<close>

definition resolves :: "env \<Rightarrow> OrderCreate \<Rightarrow> bool" where
  "resolves e payload \<longleftrightarrow>
     (case get_user e (payload_user_id payload) of Inl _ \<Rightarrow> False | Inr _ \<Rightarrow> True)"

text \<open>
  The identity gateway answers, the answer carries an \<^verbatim>\<open>email\<close>, and the mail about
  the outcome is sent without an exception.
\<close>

definition delivers :: "env \<Rightarrow> OrderCreate \<Rightarrow> bool" where
  "delivers e payload \<longleftrightarrow>
     (case get_user e (payload_user_id payload) of
        Inl _ \<Rightarrow> False
      | Inr user \<Rightarrow>
          (case user ''email'' of
             None \<Rightarrow> False
           | Some email \<Rightarrow>
               send_email e (payload_user_id payload) email email_subject
                 (email_body (str_float e) (payload_price payload) (withdrawal e payload)) = None))"

text \<open>
  The ledger reported success: the call returned, and what the handler reads as
  \<^verbatim>\<open>withdrawal_success\<close> is true.
\<close>

definition paid :: "env \<Rightarrow> OrderCreate \<Rightarrow> bool" where
  "paid e payload \<longleftrightarrow>
     (case withdraw e (payload_user_id payload) (payload_price payload) of
        Inr payment \<Rightarrow> truthy (dict_get payment ''withdrawn'' (PBool False))
      | Inl _ \<Rightarrow> False)"

text \<open>The row a successful commit adds to the table \<open>rows\<close>.\<close>

definition stored_order :: "env \<Rightarrow> Order list \<Rightarrow> OrderCreate \<Rightarrow> string option \<Rightarrow> Order" where
  "stored_order e rows payload k = (new_order e payload k)\<lparr>order_id := Some (next_id rows)\<rparr>"

text \<open>The two gateway calls made before the commit.\<close>

definition gateway_calls :: "OrderCreate \<Rightarrow> call list" where
  "gateway_calls payload =
     [GetUser (payload_user_id payload),
      Withdraw (payload_user_id payload) (payload_price payload)]"

text \<open>The calls of the notification gateway among the calls made.\<close>

fun is_mail :: "call \<Rightarrow> bool" where
  "is_mail (SendEmail _ _ _ _) = True"
| "is_mail _ = False"

definition mails :: "call list \<Rightarrow> call list" where
  "mails calls = filter is_mail calls"

text \<open>The bounds of \<^verbatim>\<open>OrderCreate\<close>, read on a stored row.\<close>

definition within_bounds :: "Order \<Rightarrow> bool" where
  "within_bounds r \<longleftrightarrow> price r > 0 \<and> user_id r \<ge> 1"

section \<open>Sample data\<close>

text \<open>
  User 1 exists and user 999 does not; the ledger pays amounts up to 500 and leaves a
  balance of 450, and declines larger ones.
\<close>

definition demo_user :: pydict where
  "demo_user = [''email'' \<mapsto> PStr ''u1@example.org'']"

definition demo_str :: "real \<Rightarrow> string" where
  "demo_str x = (if x = 50 then ''50.0'' else if x = 450 then ''450'' else ''1000.0'')"

definition demo_env :: env where
  "demo_env =
     \<lparr>get_user = (\<lambda>uid. if uid = 1 then Inr demo_user else Inl ClientError),
      withdraw = (\<lambda>uid amount.
         if amount \<le> 500
         then Inr [''withdrawn'' \<mapsto> PBool True, ''balance'' \<mapsto> PNum 450]
         else Inr [''withdrawn'' \<mapsto> PBool False,
                   ''message'' \<mapsto> PStr ''insufficient funds'']),
      send_email = (\<lambda>uid email subject body. None),
      utcnow = 1000,
      str_float = demo_str,
      before_commit = (\<lambda>rows. rows),
      commit_fault = None,
      before_reread = (\<lambda>rows. rows)\<rparr>"

definition demo_payload :: OrderCreate where
  "demo_payload = \<lparr>payload_user_id = 1, payload_price = 50\<rparr>"

definition big_payload :: OrderCreate where
  "big_payload = \<lparr>payload_user_id = 1, payload_price = 1000\<rparr>"

definition stranger_payload :: OrderCreate where
  "stranger_payload = \<lparr>payload_user_id = 999, payload_price = 50\<rparr>"

text \<open>The order of user 1 for 50, as the first row of the table, under a key.\<close>

definition demo_row :: "string option \<Rightarrow> Order" where
  "demo_row k =
     \<lparr>order_id = Some 1, user_id = 1, price = 50, status = CONFIRMED,
      message = happy_prefix @ ''50.0'' @ happy_middle @ ''450'',
      created_at = 1000, idempotency_key = k\<rparr>"

text \<open>A ledger that cannot be reached, and one that declines without a word.\<close>

definition ledger_down :: env where
  "ledger_down = demo_env\<lparr>withdraw := (\<lambda>uid amount. Inl ClientError)\<rparr>"

definition ledger_silent :: env where
  "ledger_silent = demo_env\<lparr>withdraw := (\<lambda>uid amount. Inr [''withdrawn'' \<mapsto> PBool False])\<rparr>"




section \<open>Auxiliary facts\<close>




lemma select_by_key_Some_mem:
  "select_by_key rows k = Some r \<Longrightarrow> r \<in> set rows \<and> idempotency_key r = k"
  by (induction rows) (auto simp: select_by_key_def split: if_splits)

lemma foldr_max_acc:
  "foldr (\<lambda>r m. max (row_id r) m) rows a = max (foldr (\<lambda>r m. max (row_id r) m) rows 0) (a::int)"
  if "0 \<le> a"
  using that by (induction rows) auto

lemma next_id_positive: "1 \<le> next_id rows"
  unfolding next_id_def by (induction rows) auto

lemma row_id_less_next_id: "r \<in> set rows \<Longrightarrow> row_id r < next_id rows"
  unfolding next_id_def by (induction rows) auto

lemma next_id_append:
  "next_id (rows @ [r]) = max (next_id rows) (row_id r + 1)"
proof -
  have "foldr (\<lambda>r m. max (row_id r) m) (rows @ [r]) 0
          = foldr (\<lambda>r m. max (row_id r) m) rows (max (row_id r) 0)"
    by simp
  also have "\<dots> = max (foldr (\<lambda>r m. max (row_id r) m) rows 0) (max (row_id r) 0)"
    by (rule foldr_max_acc) simp
  finally show ?thesis
    using next_id_positive [of rows] by (simp add: next_id_def)
qed

lemma new_order_fields [simp]:
  "order_id (new_order e payload k) = None"
  "user_id (new_order e payload k) = payload_user_id payload"
  "price (new_order e payload k) = payload_price payload"
  "status (new_order e payload k) = status_value (fst (withdrawal e payload))"
  "message (new_order e payload k) =
     email_body (str_float e) (payload_price payload) (withdrawal e payload)"
  "created_at (new_order e payload k) = utcnow e"
  "idempotency_key (new_order e payload k) = k"
  by (simp_all add: new_order_def Let_def)

lemma stored_order_fields [simp]:
  "order_id (stored_order e rows payload k) = Some (next_id rows)"
  "user_id (stored_order e rows payload k) = payload_user_id payload"
  "price (stored_order e rows payload k) = payload_price payload"
  "status (stored_order e rows payload k) = status_value (fst (withdrawal e payload))"
  "message (stored_order e rows payload k) =
     email_body (str_float e) (payload_price payload) (withdrawal e payload)"
  "created_at (stored_order e rows payload k) = utcnow e"
  "idempotency_key (stored_order e rows payload k) = k"
  by (simp_all add: stored_order_def)

lemma row_id_stored_order [simp]: "row_id (stored_order e rows payload k) = next_id rows"
  by (simp add: row_id_def)

lemma commit_fresh:
  assumes "k = None \<or> select_by_key rows k = None"
  shows "commit rows (new_order e payload k) None =
           Inr (rows @ [stored_order e rows payload k], stored_order e rows payload k)"
  using assms by (auto simp: commit_def duplicate_key_def stored_order_def Let_def)

lemma commit_duplicate:
  assumes "select_by_key rows (Some k) \<noteq> None"
  shows "commit rows (new_order e payload (Some k)) None = Inl IntegrityError"
  using assms by (simp add: commit_def duplicate_key_def)

lemma commit_cases:
  "commit rows (new_order e payload k) fault = Inr (rows2, stored) \<Longrightarrow>
     rows2 = rows @ [stored] \<and> stored = stored_order e rows payload k"
  by (auto simp: commit_def stored_order_def Let_def split: option.splits if_splits)

lemma notify_delivers:
  assumes "delivers e payload" and "get_user e (payload_user_id payload) = Inr user"
      and "message stored = email_body (str_float e) (payload_price payload) (withdrawal e payload)"
  shows "\<exists>email. user ''email'' = Some email \<and>
           notify e payload user stored =
             (to_OrderRead stored,
              [SendEmail (payload_user_id payload) email email_subject (message stored)])"
  using assms by (auto simp: delivers_def notify_def split: option.splits)

lemma create_order_hit:
  assumes "fast_path rows k = Some existing_order"
  shows "create_order e rows payload k = (to_OrderRead existing_order, rows, [])"
  using assms by (simp add: create_order_def)

lemma create_order_no_user:
  assumes "fast_path rows k = None"
      and "get_user e (payload_user_id payload) = Inl err"
  shows "create_order e rows payload k =
           (Inl (HTTPException 404 ''User not found''), rows, [GetUser (payload_user_id payload)])"
  using assms by (simp add: create_order_def)

lemma create_order_commit_failed:
  assumes "fast_path rows k = None"
      and "get_user e (payload_user_id payload) = Inr user"
      and "commit (before_commit e rows) (new_order e payload k) (commit_fault e) = Inl err"
  shows "create_order e rows payload k =
           (if err = IntegrityError
            then (recover (before_reread e (before_commit e rows)) k,
                  before_reread e (before_commit e rows), gateway_calls payload)
            else (Inl err, before_commit e rows, gateway_calls payload))"
  using assms by (simp add: create_order_def gateway_calls_def Let_def)

lemma create_order_committed:
  assumes "fast_path rows k = None"
      and "get_user e (payload_user_id payload) = Inr user"
      and "commit (before_commit e rows) (new_order e payload k) (commit_fault e) = Inr (rows2, stored)"
  shows "create_order e rows payload k =
           (fst (notify e payload user stored), rows2,
            gateway_calls payload @ snd (notify e payload user stored))"
  using assms by (simp add: create_order_def gateway_calls_def Let_def split: prod.splits)

lemma sequentialD:
  "sequential e \<Longrightarrow> before_commit e rows = rows \<and> before_reread e rows = rows \<and> commit_fault e = None"
  by (simp add: sequential_def no_interference_def)

lemma fast_path_None_iff:
  "fast_path rows k = None \<longleftrightarrow> \<not> key_given k \<or> select_by_key rows k = None"
  by (simp add: fast_path_def)

lemma create_order_first:
  assumes seq: "sequential e"
      and fresh: "k = None \<or> select_by_key rows k = None"
      and res: "get_user e (payload_user_id payload) = Inr user"
  shows "create_order e rows payload k =
           (fst (notify e payload user (stored_order e rows payload k)),
            rows @ [stored_order e rows payload k],
            gateway_calls payload @ snd (notify e payload user (stored_order e rows payload k)))"
proof -
  have miss: "fast_path rows k = None"
    using fresh by (auto simp: fast_path_def key_given_def)
  have "commit (before_commit e rows) (new_order e payload k) (commit_fault e)
          = Inr (rows @ [stored_order e rows payload k], stored_order e rows payload k)"
    using sequentialD [OF seq] commit_fresh [OF fresh] by simp
  from create_order_committed [OF miss res this] show ?thesis .
qed


lemma replay_Cons:
  "replay rows (e # es) payload k =
     (fst (create_order e rows payload k)
        # fst (replay (fst (snd (create_order e rows payload k))) es payload k),
      snd (replay (fst (snd (create_order e rows payload k))) es payload k))"
  by (simp split: prod.splits)


lemma sequential_demo_env: "sequential demo_env"
  by (simp add: sequential_def no_interference_def demo_env_def)

lemma delivers_demo_env: "delivers demo_env demo_payload"
  by (simp add: delivers_def demo_env_def demo_payload_def demo_user_def)

lemma resolves_demo_env: "resolves demo_env demo_payload"
  by (simp add: resolves_def demo_env_def demo_payload_def)

lemma truthy_withdrawal: "truthy (fst (withdrawal e payload)) \<longleftrightarrow> paid e payload"
  by (simp add: withdrawal_def paid_def split: sum.splits)

lemma price_in_email_body: "sublist (str_num amount) (email_body str_num amount w)"
proof (cases w)
  case (fields ok msg payment)
  show ?thesis
  proof (cases "truthy ok")
    case True
    with fields show ?thesis
      using sublist_appendI [of "str_num amount" happy_prefix] by (simp add: email_body_def)
  next
    case False
    with fields show ?thesis
      using sublist_appendI [of "str_num amount" sad_prefix] by (simp add: email_body_def)
  qed
qed

lemma sublist_suffix_part: "sublist c (a @ b @ c)"
  using sublist_appendI [of c "a @ b" "[]"] by simp

lemma reason_in_email_body:
  "sublist
     (case withdraw e (payload_user_id payload) (payload_price payload) of
        Inr payment \<Rightarrow>
          if truthy (dict_get payment ''withdrawn'' (PBool False))
          then py_str (str_float e) (dict_get payment ''balance'' (PStr ''n/a''))
          else py_str (str_float e) (dict_get payment ''message'' (PStr []))
      | Inl _ \<Rightarrow> ''Billing unavailable'')
     (email_body (str_float e) (payload_price payload) (withdrawal e payload))"
proof (cases "withdraw e (payload_user_id payload) (payload_price payload)")
  case (Inl err)
  then show ?thesis
    using sublist_suffix_part [of "''Billing unavailable''" sad_prefix "str_float e (payload_price payload) @ ''. ''"]
    by (simp add: email_body_def withdrawal_def)
next
  case (Inr payment)
  show ?thesis
  proof (cases "truthy (dict_get payment ''withdrawn'' (PBool False))")
    case True
    with Inr show ?thesis
      using sublist_suffix_part [of "py_str (str_float e) (dict_get payment ''balance'' (PStr ''n/a''))"
          happy_prefix "str_float e (payload_price payload) @ happy_middle"]
      by (simp add: email_body_def withdrawal_def)
  next
    case False
    with Inr show ?thesis
      using sublist_suffix_part [of "py_str (str_float e) (dict_get payment ''message'' (PStr []))"
          sad_prefix "str_float e (payload_price payload) @ ''. ''"]
      by (simp add: email_body_def withdrawal_def)
  qed
qed

lemma get_user_demo: "get_user demo_env (payload_user_id demo_payload) = Inr demo_user"
  by (simp add: demo_env_def demo_payload_def)

lemma select_demo_row: "select_by_key [demo_row k] k = Some (demo_row k)"
  by (simp add: select_by_key_def demo_row_def)

lemma delivers_ledger_down: "delivers ledger_down demo_payload"
  by (simp add: delivers_def ledger_down_def demo_env_def demo_payload_def demo_user_def)

lemma create_order_no_key:
  assumes seq: "sequential e" and res: "resolves e payload"
  shows "fst (snd (create_order e rows payload None)) = rows @ [stored_order e rows payload None]"
proof -
  from res obtain user where user: "get_user e (payload_user_id payload) = Inr user"
    by (auto simp: resolves_def split: sum.splits)
  from create_order_first [OF seq _ user, of None rows] show ?thesis by simp
qed

lemma create_order_no_key_result:
  assumes seq: "sequential e" and gate: "delivers e payload"
  shows "fst (create_order e rows payload None) = to_OrderRead (stored_order e rows payload None)"
proof -
  from gate obtain user where user: "get_user e (payload_user_id payload) = Inr user"
    by (auto simp: delivers_def split: sum.splits)
  from notify_delivers [OF gate user, of "stored_order e rows payload None"]
  have "fst (notify e payload user (stored_order e rows payload None))
          = to_OrderRead (stored_order e rows payload None)" by auto
  with create_order_first [OF seq _ user, of None rows] show ?thesis by simp
qed

lemma order_id_not_next: "r \<in> set rows \<Longrightarrow> order_id r \<noteq> Some (next_id rows + n)" if "0 \<le> n"
  using that row_id_less_next_id [of r rows] by (auto simp: row_id_def)

lemma stored_demo:
  "stored_order demo_env rows demo_payload k = (demo_row k)\<lparr>order_id := Some (next_id rows)\<rparr>"
  by (simp add: stored_order_def new_order_def withdrawal_def dict_get_def status_value_def
      email_body_def demo_env_def demo_payload_def demo_row_def demo_str_def)

lemma create_order_table:
  assumes "no_interference e"
  shows "fst (snd (create_order e rows payload k)) = rows
         \<or> fst (snd (create_order e rows payload k)) = rows @ [stored_order e rows payload k]"
proof -
  have b: "before_commit e rows = rows" "before_reread e rows = rows"
    using assms by (simp_all add: no_interference_def)
  show ?thesis
  proof (cases "fast_path rows k")
    case (Some x)
    from create_order_hit [OF this] show ?thesis by simp
  next
    case None
    show ?thesis
    proof (cases "get_user e (payload_user_id payload)")
      case (Inl err)
      from create_order_no_user [OF None this] show ?thesis by simp
    next
      case (Inr user)
      show ?thesis
      proof (cases "commit (before_commit e rows) (new_order e payload k) (commit_fault e)")
        case (Inl err)
        from create_order_commit_failed [OF None Inr this] show ?thesis
          by (simp add: b)
      next
        case (Inr pair)
        then obtain rows2 stored where
          c: "commit (before_commit e rows) (new_order e payload k) (commit_fault e)
                = Inr (rows2, stored)"
          by (cases pair) simp
        from commit_cases [OF c] create_order_committed [OF None \<open>get_user e _ = Inr user\<close> c]
        show ?thesis by (simp add: b)
      qed
    qed
  qed
qed

lemma post_orders_rejects:
  assumes "\<not> (1 \<le> fst body \<and> 0 < snd body)"
  shows "post_orders e rows body k = (Inl RequestValidationError, rows, [])"
  using assms by (auto simp: post_orders_def validate_OrderCreate_def)

lemma post_orders_bounds:
  assumes "\<forall>r \<in> set rows. within_bounds r" and "no_interference e"
  shows "\<forall>r \<in> set (fst (snd (post_orders e rows body k))). within_bounds r"
proof (cases "1 \<le> fst body \<and> 0 < snd body")
  case False
  from post_orders_rejects [OF this] assms(1) show ?thesis by simp
next
  case True
  let ?p = "\<lparr>payload_user_id = fst body, payload_price = snd body\<rparr>"
  have p: "post_orders e rows body k = create_order e rows ?p k"
    using True by (simp add: post_orders_def validate_OrderCreate_def)
  have "within_bounds (stored_order e rows ?p k)"
    using True by (simp add: within_bounds_def)
  with create_order_table [OF assms(2), of rows ?p k] assms(1) show ?thesis
    by (auto simp: p)
qed

lemma serve_bounds:
  assumes "\<forall>r \<in> set rows. within_bounds r"
      and "\<forall>req \<in> set reqs. no_interference (fst req)"
  shows "\<forall>r \<in> set (serve rows reqs). within_bounds r"
  using assms
proof (induction reqs arbitrary: rows)
  case Nil
  then show ?case by simp
next
  case (Cons req reqs)
  obtain e body k where req: "req = (e, body, k)" by (cases req) auto
  have "\<forall>r \<in> set (fst (snd (post_orders e rows body k))). within_bounds r"
    using Cons.prems req by (intro post_orders_bounds) simp_all
  then have "\<forall>r \<in> set (serve (fst (snd (post_orders e rows body k))) reqs). within_bounds r"
    using Cons.prems by (intro Cons.IH) simp_all
  then show ?case by (simp add: req)
qed

lemma mails_gateway_calls [simp]: "mails (gateway_calls payload) = []"
  by (simp add: mails_def gateway_calls_def)

lemma mails_notify:
  "mails (snd (notify e payload user stored)) =
     (case user ''email'' of
        None \<Rightarrow> []
      | Some email \<Rightarrow> [SendEmail (payload_user_id payload) email email_subject (message stored)])"
  by (simp add: notify_def mails_def split: option.splits)

lemma mails_create_order:
  "mails (snd (snd (create_order e rows payload k))) =
     (case fast_path rows k of
        Some _ \<Rightarrow> []
      | None \<Rightarrow>
          (case get_user e (payload_user_id payload) of
             Inl _ \<Rightarrow> []
           | Inr user \<Rightarrow>
               (case commit (before_commit e rows) (new_order e payload k) (commit_fault e) of
                  Inl _ \<Rightarrow> []
                | Inr (rows2, stored) \<Rightarrow> mails (snd (notify e payload user stored)))))"
proof (cases "fast_path rows k")
  case (Some x)
  from create_order_hit [OF this] show ?thesis by (simp add: Some mails_def)
next
  case None
  show ?thesis
  proof (cases "get_user e (payload_user_id payload)")
    case (Inl err)
    from create_order_no_user [OF None this] show ?thesis by (simp add: None Inl mails_def)
  next
    case (Inr user)
    show ?thesis
    proof (cases "commit (before_commit e rows) (new_order e payload k) (commit_fault e)")
      case (Inl err)
      from create_order_commit_failed [OF None Inr this] show ?thesis
        by (simp add: None Inr Inl)
    next
      case c: (Inr pair)
      obtain rows2 stored where pair: "pair = (rows2, stored)" by (cases pair) simp
      have "mails (xs @ ys) = mails xs @ mails ys" for xs ys
        by (simp add: mails_def)
      with create_order_committed [OF None Inr c [unfolded pair]] show ?thesis
        by (simp add: None Inr c pair)
    qed
  qed
qed

lemma commit_duplicate_fails:
  assumes "k \<noteq> None" and "select_by_key rows k \<noteq> None"
  shows "\<exists>err. commit rows (new_order e payload k) fault = Inl err"
  using assms by (simp add: commit_def duplicate_key_def split: option.splits)

lemma fast_path_demo_hit:
  "fast_path [demo_row (Some ''abc'')] (Some ''abc'') = Some (demo_row (Some ''abc''))"
  by (simp add: fast_path_def key_given_def select_demo_row)

lemma commit_demo_first:
  "commit (before_commit demo_env []) (new_order demo_env demo_payload k) (commit_fault demo_env)
     = Inr ([demo_row k], demo_row k)"
proof -
  have "commit [] (new_order demo_env demo_payload k) None
          = Inr ([] @ [stored_order demo_env [] demo_payload k], stored_order demo_env [] demo_payload k)"
    by (rule commit_fresh) (simp add: select_by_key_def)
  moreover have "stored_order demo_env [] demo_payload k = demo_row k"
    by (simp add: stored_demo next_id_def demo_row_def)
  ultimately show ?thesis
    using sequentialD [OF sequential_demo_env] by simp
qed

lemma post_orders_demo:
  "post_orders demo_env [] (1, 50) None = create_order demo_env [] demo_payload None"
  by (simp add: post_orders_def validate_OrderCreate_def demo_payload_def)

lemma create_order_demo_first:
  "fst (snd (create_order demo_env [] demo_payload k)) = [demo_row k]"
proof -
  have "fast_path [] k = None"
    by (simp add: fast_path_def select_by_key_def)
  from create_order_committed [OF this get_user_demo commit_demo_first] show ?thesis by simp
qed

section \<open>Properties of order creation\<close>








text \<open>
  Claim C4 (identity gate). When the first lookup returns nothing and the call of the
  identity gateway raises, whatever the exception, the handler answers 404 with the detail
  \<^verbatim>\<open>User not found\<close>, the table is the one it found, and the only gateway call made is
  the one to the identity gateway: neither the ledger nor the notification gateway is
  called.
\<close>

theorem identity_gate_atomicity:
  assumes "fast_path rows k = None"
      and "get_user e (payload_user_id payload) = Inl err"
  shows "create_order e rows payload k =
           (Inl (HTTPException 404 ''User not found''), rows,
            [GetUser (payload_user_id payload)])"
  using assms by (rule create_order_no_user)

theorem identity_gate_atomicity_witness:
  "fast_path [demo_row (Some ''abc'')] (Some ''xyz'') = None
   \<and> get_user demo_env (payload_user_id stranger_payload) = Inl ClientError
   \<and> create_order demo_env [demo_row (Some ''abc'')] stranger_payload (Some ''xyz'') =
       (Inl (HTTPException 404 ''User not found''), [demo_row (Some ''abc'')], [GetUser 999])"
proof -
  have h1: "fast_path [demo_row (Some ''abc'')] (Some ''xyz'') = None"
    by (simp add: fast_path_def key_given_def select_by_key_def demo_row_def)
  have h2: "get_user demo_env (payload_user_id stranger_payload) = Inl ClientError"
    by (simp add: demo_env_def stranger_payload_def)
  from identity_gate_atomicity [OF h1 h2] show ?thesis
    using h1 h2 by (simp add: stranger_payload_def)
qed

text \<open>
  Claim C5 (outcome classification), as the code has it. The order a commit stores is
  \<open>CONFIRMED\<close> exactly when the ledger reported success and \<open>FAILED\<close> otherwise. Its
  message is a function of the price and of what the call of the ledger gave. It always
  contains the printed price. On success it contains the printed \<^verbatim>\<open>balance\<close> of the
  reply (\<^verbatim>\<open>n/a\<close> when the reply has none). On a failure with a reply it contains the
  printed \<^verbatim>\<open>message\<close> of the reply, which is the empty string when the reply has none;
  the phrase \<^verbatim>\<open>Billing unavailable\<close> is the reason when the call raised, and only
  the raising call is given it by the handler.
\<close>

theorem outcome_classification:
  assumes "commit rows (new_order e payload k) fault = Inr (rows2, stored)"
  shows "(status stored = CONFIRMED \<longleftrightarrow> paid e payload)
         \<and> (status stored = FAILED \<longleftrightarrow> \<not> paid e payload)
         \<and> message stored = email_body (str_float e) (payload_price payload) (withdrawal e payload)
         \<and> sublist (str_float e (payload_price payload)) (message stored)
         \<and> sublist
             (case withdraw e (payload_user_id payload) (payload_price payload) of
                Inr payment \<Rightarrow>
                  if truthy (dict_get payment ''withdrawn'' (PBool False))
                  then py_str (str_float e) (dict_get payment ''balance'' (PStr ''n/a''))
                  else py_str (str_float e) (dict_get payment ''message'' (PStr []))
              | Inl _ \<Rightarrow> ''Billing unavailable'')
             (message stored)"
proof -
  from commit_cases [OF assms] have s: "stored = stored_order e rows payload k" by simp
  have m: "message stored = email_body (str_float e) (payload_price payload) (withdrawal e payload)"
    by (simp add: s)
  have st: "status stored = (if paid e payload then CONFIRMED else FAILED)"
    by (simp add: s status_value_def truthy_withdrawal)
  show ?thesis
    using st price_in_email_body [of "str_float e" "payload_price payload" "withdrawal e payload"]
      reason_in_email_body [of e payload]
    by (simp add: m)
qed

theorem outcome_classification_witness:
  "commit [] (new_order demo_env big_payload (Some ''abc'')) None =
     Inr ([stored_order demo_env [] big_payload (Some ''abc'')],
          stored_order demo_env [] big_payload (Some ''abc''))
   \<and> \<not> paid demo_env big_payload
   \<and> status (stored_order demo_env [] big_payload (Some ''abc'')) = FAILED
   \<and> sublist ''1000.0'' (message (stored_order demo_env [] big_payload (Some ''abc'')))
   \<and> sublist ''insufficient funds'' (message (stored_order demo_env [] big_payload (Some ''abc'')))"
proof -
  have c: "commit [] (new_order demo_env big_payload (Some ''abc'')) None =
     Inr ([] @ [stored_order demo_env [] big_payload (Some ''abc'')],
          stored_order demo_env [] big_payload (Some ''abc''))"
    by (rule commit_fresh) (simp add: select_by_key_def)
  have w: "withdraw demo_env (payload_user_id big_payload) (payload_price big_payload) =
             Inr [''withdrawn'' \<mapsto> PBool False, ''message'' \<mapsto> PStr ''insufficient funds'']"
    by (simp add: demo_env_def big_payload_def)
  have p: "\<not> paid demo_env big_payload"
    by (simp add: paid_def w dict_get_def)
  have n: "str_float demo_env (payload_price big_payload) = ''1000.0''"
    by (simp add: demo_env_def big_payload_def demo_str_def)
  from outcome_classification [OF c] show ?thesis
    using c p by (simp add: w n dict_get_def)
qed

theorem silent_decline_counterexample:
  "withdraw ledger_silent (payload_user_id demo_payload) (payload_price demo_payload)
     = Inr [''withdrawn'' \<mapsto> PBool False]
   \<and> status (new_order ledger_silent demo_payload None) = FAILED
   \<and> message (new_order ledger_silent demo_payload None) = sad_prefix @ ''50.0'' @ ''. ''
   \<and> \<not> sublist ''Billing unavailable'' (message (new_order ledger_silent demo_payload None))"
proof -
  have w: "withdraw ledger_silent (payload_user_id demo_payload) (payload_price demo_payload)
     = Inr [''withdrawn'' \<mapsto> PBool False]"
    by (simp add: ledger_silent_def)
  have s: "status (new_order ledger_silent demo_payload None) = FAILED"
    by (simp add: status_value_def withdrawal_def w dict_get_def)
  have m: "message (new_order ledger_silent demo_payload None) = sad_prefix @ ''50.0'' @ ''. ''"
    by (simp add: email_body_def withdrawal_def w dict_get_def ledger_silent_def demo_env_def
        demo_str_def demo_payload_def)
  have n: "\<not> sublist ''Billing unavailable'' (sad_prefix @ ''50.0'' @ ''. '')"
    by code_simp
  from w s m n show ?thesis by simp
qed

text \<open>
  Claim C6 (ledger failures are absorbed). Take a request that misses the first lookup,
  passes the identity gate and can be notified, and whose ledger call fails in either way:
  it raises, or it returns a reply that does not report success. When the commit of the
  order goes through, the response is a normal one, the representation of the stored
  order with status \<open>FAILED\<close>, and the table has gained exactly that order, with the
  user, the price and the key of the request. The failure of the ledger appears nowhere as
  an error of the request.
\<close>

theorem ledger_failure_absorbed:
  assumes miss: "fast_path rows k = None"
      and gate: "delivers e payload"
      and failed: "\<not> paid e payload"
      and committed: "commit (before_commit e rows) (new_order e payload k) (commit_fault e)
                        = Inr (rows2, stored)"
  shows "fst (create_order e rows payload k) =
           Inr \<lparr>read_id = next_id (before_commit e rows),
                read_user_id = payload_user_id payload,
                read_price = payload_price payload,
                read_status = FAILED,
                read_message = message stored,
                read_created_at = utcnow e\<rparr>
         \<and> fst (snd (create_order e rows payload k)) = before_commit e rows @ [stored]
         \<and> status stored = FAILED
         \<and> user_id stored = payload_user_id payload
         \<and> price stored = payload_price payload
         \<and> idempotency_key stored = k"
proof -
  from gate obtain user where user: "get_user e (payload_user_id payload) = Inr user"
    by (auto simp: delivers_def split: sum.splits)
  from commit_cases [OF committed]
  have r2: "rows2 = before_commit e rows @ [stored]"
    and s: "stored = stored_order e (before_commit e rows) payload k" by simp_all
  have st: "status stored = FAILED"
    using failed by (simp add: s status_value_def truthy_withdrawal)
  have m: "message stored = email_body (str_float e) (payload_price payload) (withdrawal e payload)"
    by (simp add: s)
  from notify_delivers [OF gate user m]
  have n: "fst (notify e payload user stored) = to_OrderRead stored" by auto
  have rd: "to_OrderRead stored =
           Inr \<lparr>read_id = next_id (before_commit e rows),
                read_user_id = payload_user_id payload,
                read_price = payload_price payload,
                read_status = FAILED,
                read_message = message stored,
                read_created_at = utcnow e\<rparr>"
    using st by (simp add: to_OrderRead_def s)
  from create_order_committed [OF miss user committed] show ?thesis
    using n rd r2 st by (simp add: s)
qed

theorem ledger_failure_absorbed_witness:
  "fast_path [] (Some ''abc'') = None
   \<and> delivers ledger_down demo_payload
   \<and> \<not> paid ledger_down demo_payload
   \<and> commit (before_commit ledger_down []) (new_order ledger_down demo_payload (Some ''abc''))
         (commit_fault ledger_down)
       = Inr ([stored_order ledger_down [] demo_payload (Some ''abc'')],
              stored_order ledger_down [] demo_payload (Some ''abc''))
   \<and> fst (create_order ledger_down [] demo_payload (Some ''abc'')) =
       Inr \<lparr>read_id = 1, read_user_id = 1, read_price = 50, read_status = FAILED,
            read_message = sad_prefix @ ''50.0. Billing unavailable'',
            read_created_at = 1000\<rparr>
   \<and> fst (snd (create_order ledger_down [] demo_payload (Some ''abc'')))
       = [stored_order ledger_down [] demo_payload (Some ''abc'')]
   \<and> status (stored_order ledger_down [] demo_payload (Some ''abc'')) = FAILED"
proof -
  have miss: "fast_path [] (Some ''abc'') = None"
    by (simp add: fast_path_def select_by_key_def)
  have p: "\<not> paid ledger_down demo_payload"
    by (simp add: paid_def ledger_down_def)
  have c: "commit (before_commit ledger_down []) (new_order ledger_down demo_payload (Some ''abc''))
         (commit_fault ledger_down)
       = Inr ([] @ [stored_order ledger_down [] demo_payload (Some ''abc'')],
              stored_order ledger_down [] demo_payload (Some ''abc''))"
    using commit_fresh [of "Some ''abc''" "[]" ledger_down demo_payload]
    by (simp add: ledger_down_def demo_env_def select_by_key_def)
  have b: "before_commit ledger_down [] = []"
    by (simp add: ledger_down_def demo_env_def)
  have m: "email_body (str_float ledger_down) 50 (withdrawal ledger_down demo_payload)
             = sad_prefix @ ''50.0. Billing unavailable''"
    by (simp add: email_body_def withdrawal_def ledger_down_def demo_env_def demo_payload_def
        demo_str_def)
  have f: "next_id [] = 1" "payload_user_id demo_payload = 1" "payload_price demo_payload = 50"
    "utcnow ledger_down = 1000"
    by (simp_all add: next_id_def demo_payload_def ledger_down_def demo_env_def)
  from ledger_failure_absorbed [OF miss delivers_ledger_down p c] show ?thesis
    using miss delivers_ledger_down p c
    by (simp add: b m f)
qed

text \<open>
  Claim C7 (independence without a key). Two requests without a key and with the same
  payload, served one after the other by a healthy database, each passing the identity
  gate: the table gains two rows, one per request, whose ids are the next id of the table
  and the one after it, so they differ from each other and from every id already there.
  When both mails go out, the two responses are the representations of these two rows.
\<close>

theorem no_key_independence:
  assumes seq: "sequential e1" "sequential e2"
      and res: "resolves e1 payload" "resolves e2 payload"
  shows "snd (replay rows [e1, e2] payload None) =
           rows @ [stored_order e1 rows payload None,
                   stored_order e2 (rows @ [stored_order e1 rows payload None]) payload None]
         \<and> order_id (stored_order e1 rows payload None) = Some (next_id rows)
         \<and> order_id (stored_order e2 (rows @ [stored_order e1 rows payload None]) payload None)
             = Some (next_id rows + 1)
         \<and> (\<forall>r \<in> set rows. order_id r \<noteq> Some (next_id rows)
                              \<and> order_id r \<noteq> Some (next_id rows + 1))
         \<and> (delivers e1 payload \<and> delivers e2 payload \<longrightarrow>
              fst (replay rows [e1, e2] payload None) =
                [to_OrderRead (stored_order e1 rows payload None),
                 to_OrderRead (stored_order e2 (rows @ [stored_order e1 rows payload None])
                   payload None)])"
proof -
  let ?o1 = "stored_order e1 rows payload None"
  let ?o2 = "stored_order e2 (rows @ [?o1]) payload None"
  have t1: "fst (snd (create_order e1 rows payload None)) = rows @ [?o1]"
    by (rule create_order_no_key [OF seq(1) res(1)])
  have t2: "fst (snd (create_order e2 (rows @ [?o1]) payload None)) = (rows @ [?o1]) @ [?o2]"
    by (rule create_order_no_key [OF seq(2) res(2)])
  have tab: "snd (replay rows [e1, e2] payload None) = rows @ [?o1, ?o2]"
    using t1 t2 by (simp only: replay_Cons) simp
  have n2: "next_id (rows @ [?o1]) = next_id rows + 1"
    by (simp add: next_id_append)
  have ids: "\<forall>r \<in> set rows. order_id r \<noteq> Some (next_id rows)
                              \<and> order_id r \<noteq> Some (next_id rows + 1)"
    using order_id_not_next [of 0 _ rows] order_id_not_next [of 1 _ rows] by simp
  have resp: "fst (replay rows [e1, e2] payload None) = [to_OrderRead ?o1, to_OrderRead ?o2]"
    if "delivers e1 payload" "delivers e2 payload"
    using create_order_no_key_result [OF seq(1) that(1), of rows]
      create_order_no_key_result [OF seq(2) that(2), of "rows @ [?o1]"] t1
    by (simp only: replay_Cons) simp
  from tab n2 ids resp show ?thesis by simp
qed

theorem no_key_independence_witness:
  "sequential demo_env \<and> resolves demo_env demo_payload \<and> delivers demo_env demo_payload
   \<and> snd (replay [] [demo_env, demo_env] demo_payload None) =
       [demo_row None, (demo_row None)\<lparr>order_id := Some 2\<rparr>]
   \<and> fst (replay [] [demo_env, demo_env] demo_payload None) =
       [to_OrderRead (demo_row None), to_OrderRead ((demo_row None)\<lparr>order_id := Some 2\<rparr>)]"
proof -
  have n: "next_id [] = 1" by (simp add: next_id_def)
  have d: "(demo_row None)\<lparr>order_id := Some 1\<rparr> = demo_row None"
    by (simp add: demo_row_def)
  from no_key_independence [OF sequential_demo_env sequential_demo_env
      resolves_demo_env resolves_demo_env, of "[]"]
  show ?thesis
    using sequential_demo_env resolves_demo_env delivers_demo_env
    by (simp add: stored_demo n d)
qed

text \<open>
  Claim C8 (bounds of price and user). Starting from the empty table, after any sequence
  of requests to \<^verbatim>\<open>POST /orders\<close> whose sessions see no foreign writes, every row of
  the table has a price above zero and a user id of at least 1. The bound is enforced at
  the boundary: a body that violates it is answered with a validation error, the table
  is untouched and no gateway is called.
\<close>

theorem price_invariant:
  assumes "\<forall>req \<in> set reqs. no_interference (fst req)"
  shows "(\<forall>r \<in> set (serve [] reqs). price r > 0 \<and> user_id r \<ge> 1)
         \<and> (\<forall>e rows body k. \<not> (1 \<le> fst body \<and> 0 < snd body) \<longrightarrow>
               post_orders e rows body k = (Inl RequestValidationError, rows, []))"
  using serve_bounds [of "[]" reqs] assms post_orders_rejects
  by (simp add: within_bounds_def)

theorem price_invariant_witness:
  "no_interference demo_env
   \<and> serve [] [(demo_env, (1, 50), None), (demo_env, (1, 0), None), (demo_env, (0, 50), None)]
       = [demo_row None]
   \<and> price (demo_row None) > 0 \<and> user_id (demo_row None) \<ge> 1
   \<and> post_orders demo_env [demo_row None] (1, 0) None
       = (Inl RequestValidationError, [demo_row None], [])"
proof -
  let ?reqs = "[(demo_env, (1, 50), None), (demo_env, (1, 0), None), (demo_env, (0, 50), None)]"
  have n: "no_interference demo_env"
    using sequential_demo_env by (simp add: sequential_def)
  then have h: "\<forall>req \<in> set ?reqs. no_interference (fst req)" by simp
  have r1: "post_orders demo_env [demo_row None] (1, 0) None
              = (Inl RequestValidationError, [demo_row None], [])"
    using price_invariant [OF h] by simp
  have r2: "post_orders demo_env [demo_row None] (0, 50) None
              = (Inl RequestValidationError, [demo_row None], [])"
    using price_invariant [OF h] by simp
  have s: "serve [] ?reqs = [demo_row None]"
    by (simp add: post_orders_demo create_order_demo_first r1 r2)
  from price_invariant [OF h]
  have "\<forall>r \<in> set (serve [] ?reqs). price r > 0 \<and> user_id r \<ge> 1" by (rule conjunct1)
  then have "price (demo_row None) > 0 \<and> user_id (demo_row None) \<ge> 1"
    by (simp only: s) simp
  with n s r1 show ?thesis by simp
qed

text \<open>
  Claim C9 (notification asymmetry). The notification gateway is called at most once per
  request. It is not called when the first lookup returns an existing order, nor when the
  commit raises (the recovery path included), nor, therefore, when the key of the request
  is already in the table at the time of the commit. After a commit that went through,
  for a user whose reply carries an \<^verbatim>\<open>email\<close>, the calls made are the identity call,
  the ledger call and then exactly one mail with the message of the stored order.
  Conversely a mail implies that this request added its own row to the table.
\<close>

theorem notification_asymmetry:
  "(\<forall>existing_order. fast_path rows k = Some existing_order \<longrightarrow>
       mails (snd (snd (create_order e rows payload k))) = [])
   \<and> (\<forall>err. commit (before_commit e rows) (new_order e payload k) (commit_fault e) = Inl err \<longrightarrow>
       mails (snd (snd (create_order e rows payload k))) = [])
   \<and> (k \<noteq> None \<and> select_by_key (before_commit e rows) k \<noteq> None \<longrightarrow>
       mails (snd (snd (create_order e rows payload k))) = [])
   \<and> (\<forall>user rows2 stored email.
         fast_path rows k = None \<and> get_user e (payload_user_id payload) = Inr user
         \<and> commit (before_commit e rows) (new_order e payload k) (commit_fault e)
             = Inr (rows2, stored)
         \<and> user ''email'' = Some email \<longrightarrow>
         snd (snd (create_order e rows payload k)) =
           [GetUser (payload_user_id payload),
            Withdraw (payload_user_id payload) (payload_price payload),
            SendEmail (payload_user_id payload) email email_subject (message stored)]
         \<and> fst (snd (create_order e rows payload k)) = rows2)
   \<and> (mails (snd (snd (create_order e rows payload k))) \<noteq> [] \<longrightarrow>
         fst (snd (create_order e rows payload k)) =
           before_commit e rows @ [stored_order e (before_commit e rows) payload k])
   \<and> length (mails (snd (snd (create_order e rows payload k)))) \<le> 1"
proof -
  let ?m = "mails (snd (snd (create_order e rows payload k)))"
  have hit: "?m = []" if "fast_path rows k = Some x" for x
    using that by (simp add: mails_create_order)
  have failed: "?m = []"
    if "commit (before_commit e rows) (new_order e payload k) (commit_fault e) = Inl err" for err
    using that by (simp add: mails_create_order split: option.splits sum.splits)
  have dup: "?m = []" if "k \<noteq> None" "select_by_key (before_commit e rows) k \<noteq> None"
    using commit_duplicate_fails [OF that, of e payload "commit_fault e"] failed by auto
  have fresh: "snd (snd (create_order e rows payload k)) =
           [GetUser (payload_user_id payload),
            Withdraw (payload_user_id payload) (payload_price payload),
            SendEmail (payload_user_id payload) email email_subject (message stored)]
         \<and> fst (snd (create_order e rows payload k)) = rows2"
    if "fast_path rows k = None" "get_user e (payload_user_id payload) = Inr user"
      "commit (before_commit e rows) (new_order e payload k) (commit_fault e) = Inr (rows2, stored)"
      "user ''email'' = Some email" for user rows2 stored email
    using create_order_committed [OF that(1-3)] that(4)
    by (simp add: notify_def gateway_calls_def split: option.splits)
  have only: "fst (snd (create_order e rows payload k)) =
           before_commit e rows @ [stored_order e (before_commit e rows) payload k]"
    if sent: "?m \<noteq> []"
  proof -
    from sent have miss: "fast_path rows k = None"
      using hit by (cases "fast_path rows k") auto
    from sent miss obtain user where user: "get_user e (payload_user_id payload) = Inr user"
      by (cases "get_user e (payload_user_id payload)") (auto simp: mails_create_order)
    from sent failed obtain rows2 stored where
      c: "commit (before_commit e rows) (new_order e payload k) (commit_fault e) = Inr (rows2, stored)"
      by (cases "commit (before_commit e rows) (new_order e payload k) (commit_fault e)") auto
    from commit_cases [OF c] create_order_committed [OF miss user c] show ?thesis by simp
  qed
  have most: "length ?m \<le> 1"
    by (simp add: mails_create_order mails_notify split: option.splits sum.splits)
  from hit failed dup fresh only most show ?thesis by blast
qed

theorem notification_asymmetry_witness:
  "fast_path [demo_row (Some ''abc'')] (Some ''abc'') = Some (demo_row (Some ''abc''))
   \<and> mails (snd (snd (create_order demo_env [demo_row (Some ''abc'')] big_payload (Some ''abc'')))) = []
   \<and> fast_path [] (Some ''abc'') = None
   \<and> snd (snd (create_order demo_env [] demo_payload (Some ''abc''))) =
       [GetUser 1, Withdraw 1 50,
        SendEmail 1 (PStr ''u1@example.org'') email_subject (message (demo_row (Some ''abc'')))]
   \<and> fst (snd (create_order demo_env [] demo_payload (Some ''abc''))) = [demo_row (Some ''abc'')]"
proof -
  have miss: "fast_path [] (Some ''abc'') = None"
    by (simp add: fast_path_def select_by_key_def)
  have mail: "demo_user ''email'' = Some (PStr ''u1@example.org'')"
    by (simp add: demo_user_def)
  have replayed:
    "mails (snd (snd (create_order demo_env [demo_row (Some ''abc'')] big_payload (Some ''abc'')))) = []"
    using notification_asymmetry [of "[demo_row (Some ''abc'')]" "Some ''abc''" demo_env big_payload]
      fast_path_demo_hit by blast
  have fresh:
    "snd (snd (create_order demo_env [] demo_payload (Some ''abc''))) =
       [GetUser (payload_user_id demo_payload),
        Withdraw (payload_user_id demo_payload) (payload_price demo_payload),
        SendEmail (payload_user_id demo_payload) (PStr ''u1@example.org'') email_subject
          (message (demo_row (Some ''abc'')))]
     \<and> fst (snd (create_order demo_env [] demo_payload (Some ''abc''))) = [demo_row (Some ''abc'')]"
    using notification_asymmetry [of "[]" "Some ''abc''" demo_env demo_payload]
      miss get_user_demo commit_demo_first [of "Some ''abc''"] mail by blast
  from fast_path_demo_hit replayed miss fresh show ?thesis
    by (simp add: demo_payload_def)
qed

text \<open>
  Claim C10 (a replay ignores its payload), as the code has it: for every request whose
  key is not empty and matches a stored order, the handler returns the representation of
  the stored order, whatever the \<open>user_id\<close> and \<open>price\<close> of the request; the table is left
  as it was and no gateway is called. The restriction to a key that is not empty is needed:
  the test \<^verbatim>\<open>if idempotency_key:\<close> sends the empty key past the first lookup, to the
  identity gateway and the ledger, although the order stored under the empty key is what
  the handler returns in the end.
\<close>

theorem replay_ignores_payload:
  assumes "key_given k" and "select_by_key rows k = Some stored"
  shows "create_order e rows payload k = (to_OrderRead stored, rows, [])"
proof -
  from assms have "fast_path rows k = Some stored"
    by (simp add: fast_path_def)
  then show ?thesis by (rule create_order_hit)
qed

theorem replay_ignores_payload_witness:
  "key_given (Some ''abc'')
   \<and> select_by_key [demo_row (Some ''abc'')] (Some ''abc'') = Some (demo_row (Some ''abc''))
   \<and> create_order ledger_down [demo_row (Some ''abc'')] big_payload (Some ''abc'') =
       (to_OrderRead (demo_row (Some ''abc'')), [demo_row (Some ''abc'')], [])
   \<and> user_id (demo_row (Some ''abc'')) = 1 \<and> price (demo_row (Some ''abc'')) = 50
   \<and> payload_price big_payload = 1000"
proof -
  have h1: "key_given (Some ''abc'')"
    by (simp add: key_given_def)
  have h2: "select_by_key [demo_row (Some ''abc'')] (Some ''abc'') = Some (demo_row (Some ''abc''))"
    by (simp add: select_by_key_def demo_row_def)
  from replay_ignores_payload [OF h1 h2] show ?thesis
    using h1 h2 by (simp add: demo_row_def big_payload_def)
qed

theorem replay_empty_key_counterexample:
  "select_by_key [demo_row (Some [])] (Some []) = Some (demo_row (Some []))
   \<and> create_order demo_env [demo_row (Some [])] demo_payload (Some []) =
       (to_OrderRead (demo_row (Some [])), [demo_row (Some [])],
        [GetUser 1, Withdraw 1 50])"
proof -
  have found: "select_by_key [demo_row (Some [])] (Some []) = Some (demo_row (Some []))"
    by (simp add: select_by_key_def demo_row_def)
  have miss: "fast_path [demo_row (Some [])] (Some []) = None"
    by (simp add: fast_path_def key_given_def)
  have user: "get_user demo_env (payload_user_id demo_payload) = Inr demo_user"
    by (simp add: demo_env_def demo_payload_def)
  have "commit (before_commit demo_env [demo_row (Some [])])
          (new_order demo_env demo_payload (Some [])) (commit_fault demo_env) = Inl IntegrityError"
    using sequentialD [OF sequential_demo_env] commit_duplicate [of "[demo_row (Some [])]" "[]"] found
    by simp
  from create_order_commit_failed [OF miss user this] show ?thesis
    using sequentialD [OF sequential_demo_env] found
    by (simp add: recover_def gateway_calls_def demo_payload_def)
qed

end
